theory Spec2Isabelle
  imports Main "HOL-Library.Word"
begin

section \<open>The zlib binding of node: src/node\_zlib.cc\<close>

text \<open>
  The file wraps a zlib stream in a JavaScript object. One class template,
  \<^verbatim>\<open>ZCtx<mode>\<close>, is instantiated for seven modes; its methods are \<^verbatim>\<open>Init\<close>,
  \<^verbatim>\<open>Write\<close>, the pair \<^verbatim>\<open>Process\<close>/\<^verbatim>\<open>After\<close> handed to \<^verbatim>\<open>uv_queue_work\<close>, and the
  destructor. The model below follows the file method by method.

  Conventions of the model.
  \<^item> Every check of the file is a C \<^verbatim>\<open>assert\<close>. A failing \<^verbatim>\<open>assert\<close> ends the process;
    the model returns \<open>Aborted\<close> with the assertion that failed and the state at that
    moment. Assertions are taken as compiled in.
  \<^item> zlib, libuv and V8 are not part of the file. The six zlib entry points the file
    calls are a parameter of the model (a record of functions), so that every theorem
    holds for any behaviour of the library; each call and its return code is appended
    to a log. \<^verbatim>\<open>uv_queue_work\<close> appends to a queue, and \<open>uv_run_work\<close> runs the oldest
    entry: the work function, then the after-work function.
  \<^item> A C \<^verbatim>\<open>int\<close> is 32 bits wide. The \<^verbatim>\<open>int\<close> fields are \<open>int\<close> in the model: a value
    read from a 32-bit argument is obtained with \<open>sint\<close>, and the result of an
    arithmetic operation on a field is brought back into the 32 bits with \<open>int32\<close>
    (beyond them the operation is undefined in C; the two's complement build wraps).
    \<^verbatim>\<open>size_t\<close> is 64 bits wide, \<^verbatim>\<open>uInt\<close> is 32 bits wide.
  \<^item> A member \<^verbatim>\<open>x_\<close> of the class is the field \<open>m_x\<close> of the record.
  \<^item> The constructor assigns no member, so a new context holds whatever the memory
    held: the model has no \<^verbatim>\<open>New\<close>, and its theorems start from any context.
  \<^item> The number of arguments (\<^verbatim>\<open>args.Length()\<close>, asserted to be 4 and 7) is fixed by
    the types of \<open>Init\<close> and \<open>Write\<close>.
\<close>

subsection \<open>Modes and constants\<close>

datatype node_zlib_mode =
  DEFLATE | INFLATE | GZIP | GUNZIP | DEFLATERAW | INFLATERAW | UNZIP

text \<open>The constants of \<^verbatim>\<open>zlib.h\<close> that the file names, with the values of that header.\<close>

definition Z_OK :: int where "Z_OK = 0"
definition Z_STREAM_END :: int where "Z_STREAM_END = 1"
definition Z_STREAM_ERROR :: int where "Z_STREAM_ERROR = - 2"
definition Z_DATA_ERROR :: int where "Z_DATA_ERROR = - 3"
definition Z_MEM_ERROR :: int where "Z_MEM_ERROR = - 4"

definition Z_NO_FLUSH :: int where "Z_NO_FLUSH = 0"
definition Z_FINISH :: int where "Z_FINISH = 4"

definition Z_FILTERED :: int where "Z_FILTERED = 1"
definition Z_HUFFMAN_ONLY :: int where "Z_HUFFMAN_ONLY = 2"
definition Z_RLE :: int where "Z_RLE = 3"
definition Z_FIXED :: int where "Z_FIXED = 4"
definition Z_DEFAULT_STRATEGY :: int where "Z_DEFAULT_STRATEGY = 0"

definition Z_DEFLATED :: int where "Z_DEFLATED = 8"
definition Z_NULL :: nat where "Z_NULL = 0"

subsection \<open>Data\<close>

type_synonym byte = "8 word"
type_synonym uInt = "32 word"
type_synonym uint32_t = "32 word"
type_synonym size_t = "64 word"

text \<open>The value a C \<^verbatim>\<open>int\<close> holds when an operation on \<^verbatim>\<open>int\<close> has the exact result \<open>k\<close>.\<close>

definition int32 :: "int \<Rightarrow> int" where
  "int32 k = sint (word_of_int k :: 32 word)"

text \<open>
  A \<^verbatim>\<open>Bytef *\<close> of the file points either into the data of a Buffer, at an offset, or
  at the one-byte local array \<^verbatim>\<open>nada\<close> of \<^verbatim>\<open>Write\<close>.
\<close>

datatype bytef_ptr = Nada | Data nat nat

text \<open>
  \<^verbatim>\<open>z_stream\<close>: the fields the file reads or writes. Everything else of the struct
  (the internal state pointer, the totals, the checksum) belongs to zlib and is the
  component \<open>internal\<close>.
\<close>

record 'z z_stream =
  next_in :: bytef_ptr
  avail_in :: uInt
  next_out :: bytef_ptr
  avail_out :: uInt
  zalloc :: nat
  zfree :: nat
  opaque :: nat
  internal :: 'z

record 'z ZCtx =
  m_init_done :: bool
  m_strm :: "'z z_stream"
  m_level :: int
  m_windowBits :: int
  m_memLevel :: int
  m_strategy :: int
  m_flush :: int
  m_chunk_size :: int

text \<open>The memory of the Buffers, by Buffer identity.\<close>

type_synonym heap = "nat \<Rightarrow> byte list"

text \<open>The zlib entry points, each returning its \<^verbatim>\<open>int\<close> code and the stream it leaves.\<close>

record 'z zlib =
  deflateInit2 :: "'z z_stream \<Rightarrow> int \<Rightarrow> int \<Rightarrow> int \<Rightarrow> int \<Rightarrow> int \<Rightarrow> int \<times> 'z z_stream"
  inflateInit2 :: "'z z_stream \<Rightarrow> int \<Rightarrow> int \<times> 'z z_stream"
  deflate :: "heap \<Rightarrow> 'z z_stream \<Rightarrow> int \<Rightarrow> int \<times> heap \<times> 'z z_stream"
  inflate :: "heap \<Rightarrow> 'z z_stream \<Rightarrow> int \<Rightarrow> int \<times> heap \<times> 'z z_stream"
  deflateEnd :: "'z z_stream \<Rightarrow> int \<times> 'z z_stream"
  inflateEnd :: "'z z_stream \<Rightarrow> int \<times> 'z z_stream"

datatype zcall =
  DeflateInit2 int int int int int
| InflateInit2 int
| Deflate int
| Inflate int
| DeflateEnd
| InflateEnd

text \<open>
  The state the methods act on: the wrapped context (\<^verbatim>\<open>args.This()\<close>), the Buffers,
  the work queued with \<^verbatim>\<open>uv_queue_work\<close> (each entry is the request object made by
  \<^verbatim>\<open>new WorkReqWrap()\<close>, which carries the context), the request objects that have a
  function as their \<^verbatim>\<open>callback\<close> property, the calls made with \<^verbatim>\<open>MakeCallback\<close> (request
  object and argument list), and the log of zlib calls with their return codes.
\<close>

record 'z world =
  ctx :: "'z ZCtx"
  heap :: heap
  next_object :: nat
  work_queue :: "nat list"
  has_callback :: "nat \<Rightarrow> bool"
  made_callbacks :: "(nat \<times> int list) list"
  zcalls :: "(zcall \<times> int) list"

text \<open>The assertions of the file, in the order of the source.\<close>

datatype assertion =
  Write_before_init
| In_HasInstance
| In_within_Length
| Out_HasInstance
| Out_within_Length
| Not_Z_STREAM_ERROR
| Invalid_callback
| Invalid_windowBits
| Invalid_compression_level
| Invalid_memlevel
| Invalid_strategy
| Init_Z_OK

datatype ('a, 's) outcome = Done 'a 's | Aborted assertion 's

fun state_of :: "('a, 's) outcome \<Rightarrow> 's" where
  "state_of (Done _ s) = s"
| "state_of (Aborted _ s) = s"

text \<open>A JavaScript argument where the file expects a Buffer or null.\<close>

datatype jsval = Null | Buffer nat | Other

definition Buffer_Length :: "heap \<Rightarrow> nat \<Rightarrow> size_t" where
  "Buffer_Length h b = of_nat (length (h b))"

subsection \<open>The calls into zlib\<close>

definition call_deflateInit2 ::
  "'z zlib \<Rightarrow> int \<Rightarrow> int \<Rightarrow> int \<Rightarrow> int \<Rightarrow> int \<Rightarrow> 'z world \<Rightarrow> int \<times> 'z world" where
  "call_deflateInit2 Z level method windowBits memLevel strategy w =
     (let (err, s) = deflateInit2 Z (m_strm (ctx w)) level method windowBits memLevel strategy
      in (err, w\<lparr>ctx := (ctx w)\<lparr>m_strm := s\<rparr>,
                 zcalls := zcalls w @ [(DeflateInit2 level method windowBits memLevel strategy, err)]\<rparr>))"

definition call_inflateInit2 :: "'z zlib \<Rightarrow> int \<Rightarrow> 'z world \<Rightarrow> int \<times> 'z world" where
  "call_inflateInit2 Z windowBits w =
     (let (err, s) = inflateInit2 Z (m_strm (ctx w)) windowBits
      in (err, w\<lparr>ctx := (ctx w)\<lparr>m_strm := s\<rparr>,
                 zcalls := zcalls w @ [(InflateInit2 windowBits, err)]\<rparr>))"

definition call_deflate :: "'z zlib \<Rightarrow> int \<Rightarrow> 'z world \<Rightarrow> int \<times> 'z world" where
  "call_deflate Z fl w =
     (let (err, h, s) = deflate Z (heap w) (m_strm (ctx w)) fl
      in (err, w\<lparr>ctx := (ctx w)\<lparr>m_strm := s\<rparr>, heap := h,
                 zcalls := zcalls w @ [(Deflate fl, err)]\<rparr>))"

definition call_inflate :: "'z zlib \<Rightarrow> int \<Rightarrow> 'z world \<Rightarrow> int \<times> 'z world" where
  "call_inflate Z fl w =
     (let (err, h, s) = inflate Z (heap w) (m_strm (ctx w)) fl
      in (err, w\<lparr>ctx := (ctx w)\<lparr>m_strm := s\<rparr>, heap := h,
                 zcalls := zcalls w @ [(Inflate fl, err)]\<rparr>))"

definition call_deflateEnd :: "'z zlib \<Rightarrow> 'z world \<Rightarrow> int \<times> 'z world" where
  "call_deflateEnd Z w =
     (let (err, s) = deflateEnd Z (m_strm (ctx w))
      in (err, w\<lparr>ctx := (ctx w)\<lparr>m_strm := s\<rparr>, zcalls := zcalls w @ [(DeflateEnd, err)]\<rparr>))"

definition call_inflateEnd :: "'z zlib \<Rightarrow> 'z world \<Rightarrow> int \<times> 'z world" where
  "call_inflateEnd Z w =
     (let (err, s) = inflateEnd Z (m_strm (ctx w))
      in (err, w\<lparr>ctx := (ctx w)\<lparr>m_strm := s\<rparr>, zcalls := zcalls w @ [(InflateEnd, err)]\<rparr>))"

subsection \<open>Init\<close>

text \<open>
  \<^verbatim>\<open>Init(ZCtx *ctx, int level, int windowBits, int memLevel, int strategy)\<close>,
  lines 238 to 291. The three \<^verbatim>\<open>if\<close> statements on the mode run one after the other;
  \<^verbatim>\<open>init_done_\<close> is assigned before the return code is asserted.
\<close>

definition Init_ctx ::
  "node_zlib_mode \<Rightarrow> 'z zlib \<Rightarrow> int \<Rightarrow> int \<Rightarrow> int \<Rightarrow> int \<Rightarrow> 'z world \<Rightarrow> (unit, 'z world) outcome" where
  "Init_ctx mode Z level windowBits memLevel strategy w =
     (let c0 = (ctx w)\<lparr>m_level := level, m_windowBits := windowBits,
                        m_memLevel := memLevel, m_strategy := strategy\<rparr>;
          c1 = c0\<lparr>m_strm := (m_strm c0)\<lparr>zalloc := Z_NULL, zfree := Z_NULL, opaque := Z_NULL\<rparr>\<rparr>;
          c2 = c1\<lparr>m_flush := Z_NO_FLUSH\<rparr>;
          c3 = (if mode = GZIP \<or> mode = GUNZIP
                then c2\<lparr>m_windowBits := int32 (m_windowBits c2 + 16)\<rparr> else c2);
          c4 = (if mode = UNZIP
                then c3\<lparr>m_windowBits := int32 (m_windowBits c3 + 32)\<rparr> else c3);
          c5 = (if mode = DEFLATERAW \<or> mode = INFLATERAW
                then c4\<lparr>m_windowBits := int32 (m_windowBits c4 * (- 1))\<rparr> else c4);
          w5 = w\<lparr>ctx := c5\<rparr>;
          (err, w6) =
            (case mode of
               DEFLATE \<Rightarrow> call_deflateInit2 Z (m_level c5) Z_DEFLATED (m_windowBits c5)
                            (m_memLevel c5) (m_strategy c5) w5
             | GZIP \<Rightarrow> call_deflateInit2 Z (m_level c5) Z_DEFLATED (m_windowBits c5)
                            (m_memLevel c5) (m_strategy c5) w5
             | DEFLATERAW \<Rightarrow> call_deflateInit2 Z (m_level c5) Z_DEFLATED (m_windowBits c5)
                            (m_memLevel c5) (m_strategy c5) w5
             | INFLATE \<Rightarrow> call_inflateInit2 Z (m_windowBits c5) w5
             | GUNZIP \<Rightarrow> call_inflateInit2 Z (m_windowBits c5) w5
             | INFLATERAW \<Rightarrow> call_inflateInit2 Z (m_windowBits c5) w5
             | UNZIP \<Rightarrow> call_inflateInit2 Z (m_windowBits c5) w5);
          w7 = w6\<lparr>ctx := (ctx w6)\<lparr>m_init_done := True\<rparr>\<rparr>
      in if err = Z_OK then Done () w7 else Aborted Init_Z_OK w7)"

text \<open>
  \<^verbatim>\<open>Init(const Arguments& args)\<close>, lines 209 to 236. Each argument is read with
  \<^verbatim>\<open>Uint32Value()\<close> and stored in an \<^verbatim>\<open>int\<close>; the arguments come in the order
  windowBits, level, memLevel, strategy.
\<close>

definition Init ::
  "node_zlib_mode \<Rightarrow> 'z zlib \<Rightarrow> uint32_t \<Rightarrow> uint32_t \<Rightarrow> uint32_t \<Rightarrow> uint32_t \<Rightarrow> 'z world
     \<Rightarrow> (unit, 'z world) outcome" where
  "Init mode Z arg0 arg1 arg2 arg3 w =
     (let windowBits = sint arg0 in
      if \<not> (windowBits \<ge> 8 \<and> windowBits \<le> 15) then Aborted Invalid_windowBits w else
      let level = sint arg1 in
      if \<not> (level \<ge> - 1 \<and> level \<le> 9) then Aborted Invalid_compression_level w else
      let memLevel = sint arg2 in
      if \<not> (memLevel \<ge> 1 \<and> memLevel \<le> 9) then Aborted Invalid_memlevel w else
      let strategy = sint arg3 in
      if \<not> (strategy = Z_FILTERED \<or> strategy = Z_HUFFMAN_ONLY \<or> strategy = Z_RLE \<or>
             strategy = Z_FIXED \<or> strategy = Z_DEFAULT_STRATEGY)
      then Aborted Invalid_strategy w
      else Init_ctx mode Z level windowBits memLevel strategy w)"

subsection \<open>Write\<close>

text \<open>
  \<^verbatim>\<open>write(flush, in, in_off, in_len, out, out_off, out_len)\<close>: the seven arguments, the
  numbers as \<^verbatim>\<open>Uint32Value()\<close> gives them.
\<close>

record write_args =
  arg_flush :: uint32_t
  arg_in :: jsval
  arg_in_off :: uint32_t
  arg_in_len :: uint32_t
  arg_out :: jsval
  arg_out_off :: uint32_t
  arg_out_len :: uint32_t

text \<open>
  \<^verbatim>\<open>Write\<close>, lines 81 to 142. The result is the request object. The offsets and lengths
  are widened to \<^verbatim>\<open>size_t\<close>; \<^verbatim>\<open>avail_in\<close> and \<^verbatim>\<open>avail_out\<close> are \<^verbatim>\<open>uInt\<close>, \<^verbatim>\<open>flush_\<close> and
  \<^verbatim>\<open>chunk_size_\<close> are \<^verbatim>\<open>int\<close>.
\<close>

definition Write ::
  "node_zlib_mode \<Rightarrow> write_args \<Rightarrow> 'z world \<Rightarrow> (nat, 'z world) outcome" where
  "Write mode a w =
     (if \<not> m_init_done (ctx w) then Aborted Write_before_init w
      else
        case (case arg_in a of
                Null \<Rightarrow> Inr (Nada, 0)
              | Buffer in_buf \<Rightarrow>
                  (let in_off = (ucast (arg_in_off a) :: size_t);
                       in_len = (ucast (arg_in_len a) :: size_t)
                   in if in_off + in_len \<le> Buffer_Length (heap w) in_buf
                      then Inr (Data in_buf (unat in_off), in_len)
                      else Inl In_within_Length)
              | Other \<Rightarrow> Inl In_HasInstance) of
          Inl failed \<Rightarrow> Aborted failed w
        | Inr (inp, in_len) \<Rightarrow>
            (case arg_out a of
               Buffer out_buf \<Rightarrow>
                 (let out_off = (ucast (arg_out_off a) :: size_t);
                      out_len = (ucast (arg_out_len a) :: size_t)
                  in if out_off + out_len \<le> Buffer_Length (heap w) out_buf
                     then
                       (let out = Data out_buf (unat out_off);
                            req_wrap = next_object w;
                            c = (ctx w)
                              \<lparr>m_strm := (m_strm (ctx w))
                                 \<lparr>next_in := inp, avail_in := ucast in_len,
                                  next_out := out, avail_out := ucast out_len\<rparr>,
                               m_flush := sint (arg_flush a),
                               m_chunk_size := sint (ucast out_len :: 32 word)\<rparr>
                        in Done req_wrap
                             (w\<lparr>ctx := c, next_object := Suc req_wrap,
                                work_queue := work_queue w @ [req_wrap]\<rparr>))
                     else Aborted Out_within_Length w)
             | _ \<Rightarrow> Aborted Out_HasInstance w))"

subsection \<open>Process and After\<close>

text \<open>\<^verbatim>\<open>Process\<close>, lines 149 to 178: one call of the transform, then the assertion.\<close>

definition Process :: "node_zlib_mode \<Rightarrow> 'z zlib \<Rightarrow> 'z world \<Rightarrow> (unit, 'z world) outcome" where
  "Process mode Z w =
     (let (err, w') =
            (case mode of
               DEFLATE \<Rightarrow> call_deflate Z (m_flush (ctx w)) w
             | GZIP \<Rightarrow> call_deflate Z (m_flush (ctx w)) w
             | DEFLATERAW \<Rightarrow> call_deflate Z (m_flush (ctx w)) w
             | UNZIP \<Rightarrow> call_inflate Z (m_flush (ctx w)) w
             | INFLATE \<Rightarrow> call_inflate Z (m_flush (ctx w)) w
             | GUNZIP \<Rightarrow> call_inflate Z (m_flush (ctx w)) w
             | INFLATERAW \<Rightarrow> call_inflate Z (m_flush (ctx w)) w)
      in if err \<noteq> Z_STREAM_ERROR then Done () w' else Aborted Not_Z_STREAM_ERROR w')"

text \<open>
  \<^verbatim>\<open>After\<close>, lines 181 to 198. \<^verbatim>\<open>Integer::New\<close> takes an \<^verbatim>\<open>int32_t\<close>, so the two
  \<^verbatim>\<open>uInt\<close> counters are read as signed. The callback gets exactly two arguments,
  \<^verbatim>\<open>avail_in\<close> then \<^verbatim>\<open>avail_out\<close>.
\<close>

definition After :: "nat \<Rightarrow> 'z world \<Rightarrow> (unit, 'z world) outcome" where
  "After req_wrap w =
     (let avail_out' = sint (avail_out (m_strm (ctx w)));
          avail_in' = sint (avail_in (m_strm (ctx w)))
      in if \<not> has_callback w req_wrap then Aborted Invalid_callback w
         else Done () (w\<lparr>made_callbacks :=
                           made_callbacks w @ [(req_wrap, [avail_in', avail_out'])]\<rparr>))"

text \<open>
  What \<^verbatim>\<open>uv_queue_work(loop, work_req, Process, After)\<close> arranges for the oldest
  request of the queue: \<^verbatim>\<open>Process\<close> once on a pool thread, then \<^verbatim>\<open>After\<close> once on the
  loop thread.
\<close>

definition uv_run_work :: "node_zlib_mode \<Rightarrow> 'z zlib \<Rightarrow> 'z world \<Rightarrow> (unit, 'z world) outcome" where
  "uv_run_work mode Z w =
     (case work_queue w of
        [] \<Rightarrow> Done () w
      | req_wrap # rest \<Rightarrow>
          (case Process mode Z (w\<lparr>work_queue := rest\<rparr>) of
             Aborted failed w' \<Rightarrow> Aborted failed w'
           | Done _ w' \<Rightarrow> After req_wrap w'))"

subsection \<open>The destructor\<close>

text \<open>\<^verbatim>\<open>~ZCtx\<close>, lines 72 to 78; the return codes are cast to \<^verbatim>\<open>void\<close>.\<close>

definition ZCtx_destructor :: "node_zlib_mode \<Rightarrow> 'z zlib \<Rightarrow> 'z world \<Rightarrow> 'z world" where
  "ZCtx_destructor mode Z w =
     (if mode = DEFLATE \<or> mode = GZIP \<or> mode = DEFLATERAW then snd (call_deflateEnd Z w)
      else if mode = INFLATE \<or> mode = GUNZIP \<or> mode = INFLATERAW then snd (call_inflateEnd Z w)
      else w)"

fun failed_assertion :: "('a, 's) outcome \<Rightarrow> assertion option" where
  "failed_assertion (Done _ _) = None"
| "failed_assertion (Aborted failed _) = Some failed"

subsection \<open>The specification's tables, for comparison\<close>

text \<open>
  The specification's Codec Registry, written from its words: to each variant the
  transform family (compressing or decompressing) and the windowBits adjustment
  (gzip variants add 16, the auto-detecting variant adds 32, raw variants negate).
\<close>

fun spec_compressing :: "node_zlib_mode \<Rightarrow> bool" where
  "spec_compressing DEFLATE = True"
| "spec_compressing GZIP = True"
| "spec_compressing DEFLATERAW = True"
| "spec_compressing INFLATE = False"
| "spec_compressing GUNZIP = False"
| "spec_compressing INFLATERAW = False"
| "spec_compressing UNZIP = False"


text \<open>
  The specification's result of a write: bytes consumed is the original input length
  minus the \<^verbatim>\<open>avail_in\<close> the transform leaves, bytes produced the original output length
  minus the \<^verbatim>\<open>avail_out\<close> it leaves. A write with null for its input has input length 0.
\<close>

definition original_input_length :: "write_args \<Rightarrow> int" where
  "original_input_length a = (case arg_in a of Null \<Rightarrow> 0 | _ \<Rightarrow> uint (arg_in_len a))"

definition spec_bytes_consumed :: "write_args \<Rightarrow> 'z z_stream \<Rightarrow> int" where
  "spec_bytes_consumed a s = original_input_length a - uint (avail_in s)"

definition spec_bytes_produced :: "write_args \<Rightarrow> 'z z_stream \<Rightarrow> int" where
  "spec_bytes_produced a s = uint (arg_out_len a) - uint (avail_out s)"

subsection \<open>A library and a state to run the model on\<close>

text \<open>
  A stand-in for zlib with chosen return codes: its two initialisers return
  \<open>init_code\<close> and leave the stream as it is; its two transforms return \<open>step_code\<close>,
  take up to \<open>taken\<close> bytes of the input there is and write nothing; its two finalisers
  return \<open>Z_OK\<close>.
\<close>

fun advance :: "bytef_ptr \<Rightarrow> nat \<Rightarrow> bytef_ptr" where
  "advance Nada n = Nada"
| "advance (Data b off) n = Data b (off + n)"

definition take_input :: "nat \<Rightarrow> 'z z_stream \<Rightarrow> 'z z_stream" where
  "take_input taken s =
     (let n = min taken (unat (avail_in s))
      in s\<lparr>next_in := advance (next_in s) n, avail_in := avail_in s - of_nat n\<rparr>)"

definition zlib_stub :: "int \<Rightarrow> int \<Rightarrow> nat \<Rightarrow> unit zlib" where
  "zlib_stub init_code step_code taken =
     \<lparr>deflateInit2 = (\<lambda>s level method windowBits memLevel strategy. (init_code, s)),
      inflateInit2 = (\<lambda>s windowBits. (init_code, s)),
      deflate = (\<lambda>h s fl. (step_code, h, take_input taken s)),
      inflate = (\<lambda>h s fl. (step_code, h, take_input taken s)),
      deflateEnd = (\<lambda>s. (Z_OK, s)),
      inflateEnd = (\<lambda>s. (Z_OK, s))\<rparr>"

text \<open>
  A context on which \<^verbatim>\<open>Init\<close> has not run, Buffer 0 holding four bytes and Buffer 1
  sixteen, nothing queued, and a caller that gives every request object a callback.
\<close>

definition fresh_world :: "unit world" where
  "fresh_world =
     \<lparr>ctx = \<lparr>m_init_done = False,
             m_strm = \<lparr>next_in = Nada, avail_in = 0, next_out = Nada, avail_out = 0,
                       zalloc = 0, zfree = 0, opaque = 0, internal = ()\<rparr>,
             m_level = 0, m_windowBits = 0, m_memLevel = 0, m_strategy = 0,
             m_flush = 0, m_chunk_size = 0\<rparr>,
      heap = (\<lambda>b. if b = 0 then [31, 139, 8, 255] else if b = 1 then replicate 16 0 else []),
      next_object = 0,
      work_queue = [],
      has_callback = (\<lambda>r. True),
      made_callbacks = [],
      zcalls = []\<rparr>"

text \<open>The same with the context marked initialised.\<close>

definition ready_world :: "unit world" where
  "ready_world = fresh_world\<lparr>ctx := (ctx fresh_world)\<lparr>m_init_done := True\<rparr>\<rparr>"

text \<open>A write of the four bytes of Buffer 0 into the sixteen of Buffer 1, flush \<open>Z_NO_FLUSH\<close>.\<close>

definition four_into_sixteen :: write_args where
  "four_into_sixteen =
     \<lparr>arg_flush = 0, arg_in = Buffer 0, arg_in_off = 0, arg_in_len = 4,
      arg_out = Buffer 1, arg_out_off = 0, arg_out_len = 16\<rparr>"

subsection \<open>Names for what the switch statements select\<close>

text \<open>
  The value the three \<^verbatim>\<open>if\<close> statements of \<^verbatim>\<open>Init\<close> leave in \<^verbatim>\<open>windowBits_\<close>, and the
  initialiser, its log entry, the transform and its log entry that the
  \<^verbatim>\<open>switch (mode)\<close> of \<^verbatim>\<open>Init\<close> and of \<^verbatim>\<open>Process\<close> select, written with the
  specification's split into compressing and decompressing variants. The lemmas
  \<open>Init_ctx_eq\<close> and \<open>Process_eq\<close> below show that the source's switches select these.
\<close>

definition adjusted_windowBits :: "node_zlib_mode \<Rightarrow> int \<Rightarrow> int" where
  "adjusted_windowBits mode windowBits =
     (let b1 = (if mode = GZIP \<or> mode = GUNZIP then int32 (windowBits + 16) else windowBits);
          b2 = (if mode = UNZIP then int32 (b1 + 32) else b1)
      in if mode = DEFLATERAW \<or> mode = INFLATERAW then int32 (b2 * (- 1)) else b2)"

definition underlying_init ::
  "node_zlib_mode \<Rightarrow> 'z zlib \<Rightarrow> 'z z_stream \<Rightarrow> int \<Rightarrow> int \<Rightarrow> int \<Rightarrow> int \<Rightarrow> int \<times> 'z z_stream" where
  "underlying_init mode Z s level windowBits memLevel strategy =
     (if spec_compressing mode then deflateInit2 Z s level Z_DEFLATED windowBits memLevel strategy
      else inflateInit2 Z s windowBits)"

definition init_call :: "node_zlib_mode \<Rightarrow> int \<Rightarrow> int \<Rightarrow> int \<Rightarrow> int \<Rightarrow> zcall" where
  "init_call mode level windowBits memLevel strategy =
     (if spec_compressing mode then DeflateInit2 level Z_DEFLATED windowBits memLevel strategy
      else InflateInit2 windowBits)"

definition underlying_transform ::
  "node_zlib_mode \<Rightarrow> 'z zlib \<Rightarrow> heap \<Rightarrow> 'z z_stream \<Rightarrow> int \<Rightarrow> int \<times> heap \<times> 'z z_stream" where
  "underlying_transform mode Z = (if spec_compressing mode then deflate Z else inflate Z)"

definition transform_call :: "node_zlib_mode \<Rightarrow> int \<Rightarrow> zcall" where
  "transform_call mode fl = (if spec_compressing mode then Deflate fl else Inflate fl)"

text \<open>What \<^verbatim>\<open>Write\<close> stages for its input argument: the pointer and the count.\<close>

definition staged_input :: "write_args \<Rightarrow> bytef_ptr \<times> uInt" where
  "staged_input a =
     (case arg_in a of Buffer b \<Rightarrow> (Data b (unat (arg_in_off a)), arg_in_len a)
      | _ \<Rightarrow> (Nada, 0))"

text \<open>The state after that write on the initialised context: one request is queued.\<close>

definition pending_world :: "unit world" where
  "pending_world = state_of (Write GUNZIP four_into_sixteen ready_world)"

section \<open>Properties\<close>

subsection \<open>Arithmetic of the widths\<close>

lemma unat_widen: "unat (ucast (x :: 32 word) :: 64 word) = unat x"
proof -
  have "unat x < 2 ^ 32"
    using unsigned_less [of x, where ?'a = nat] by simp
  then have "unat x < 2 ^ 64"
    by (rule less_trans) simp
  then show ?thesis
    by (simp add: unsigned_ucast_eq take_bit_nat_eq_self)
qed

text \<open>
  The bounds assertions add two widened 32-bit values in \<^verbatim>\<open>size_t\<close>: the sum cannot
  wrap, so the assertion compares the true sum.
\<close>

lemma size_t_sum_le:
  fixes x y :: "32 word" and L :: "64 word"
  shows "((ucast x :: 64 word) + ucast y \<le> L) = (unat x + unat y \<le> unat L)"
proof -
  have x: "unat x < 2 ^ 32" and y: "unat y < 2 ^ 32"
    using unsigned_less [of x, where ?'a = nat] unsigned_less [of y, where ?'a = nat] by simp_all
  have "unat x + unat y < 2 ^ 64"
    using x y by simp
  then have "unat ((ucast x :: 64 word) + ucast y) = unat x + unat y"
    using unat_add_lem [of "ucast x :: 64 word" "ucast y"] by (simp add: unat_widen)
  then show ?thesis by (simp add: word_le_nat_alt)
qed

lemma narrow_widen: "(ucast (ucast (x :: 32 word) :: 64 word) :: 32 word) = x"
  by (simp add: ucast_up_ucast_id is_up)

lemma sint_below: "uint (x :: 32 word) < 2 ^ 31 \<Longrightarrow> sint x = uint x"
proof -
  assume "uint x < 2 ^ 31"
  moreover have "- (2 ^ 31) \<le> uint x"
    by (rule order_trans [of _ 0]) simp_all
  ultimately have "signed_take_bit 31 (uint x) = uint x"
    by (simp add: signed_take_bit_int_eq_self_iff)
  then show ?thesis by (simp add: sint_uint)
qed

subsection \<open>Each method in one equation\<close>

lemmas call_defs = call_deflateInit2_def call_inflateInit2_def call_deflate_def
  call_inflate_def call_deflateEnd_def call_inflateEnd_def

lemmas strategy_defs = Z_FILTERED_def Z_HUFFMAN_ONLY_def Z_RLE_def Z_FIXED_def
  Z_DEFAULT_STRATEGY_def

text \<open>
  \<^verbatim>\<open>Init\<close> on a context: the fields it leaves, the one call it logs, and the assertion
  on the return code.
\<close>

lemma Init_ctx_eq:
  "Init_ctx mode Z level windowBits memLevel strategy w =
     (case underlying_init mode Z
             ((m_strm (ctx w))\<lparr>zalloc := Z_NULL, zfree := Z_NULL, opaque := Z_NULL\<rparr>)
             level (adjusted_windowBits mode windowBits) memLevel strategy of
        (err, s) \<Rightarrow>
          (if err = Z_OK then Done () else Aborted Init_Z_OK)
            (w\<lparr>ctx := (ctx w)\<lparr>m_level := level,
                   m_windowBits := adjusted_windowBits mode windowBits,
                   m_memLevel := memLevel, m_strategy := strategy, m_flush := Z_NO_FLUSH,
                   m_strm := s, m_init_done := True\<rparr>,
               zcalls := zcalls w @
                 [(init_call mode level (adjusted_windowBits mode windowBits)
                     memLevel strategy, err)]\<rparr>))"
  by (cases mode)
    (simp_all add: Init_ctx_def call_defs underlying_init_def init_call_def
       adjusted_windowBits_def Let_def split: prod.splits)

text \<open>Within the 32 bits nothing wraps, and the adjustment is the specification's.\<close>

lemma int32_fits: "- (2 ^ 31) \<le> k \<Longrightarrow> k < 2 ^ 31 \<Longrightarrow> int32 k = k"
  by (simp add: int32_def signed_of_int signed_take_bit_int_eq_self)


lemma adjusted_windowBits_8_15:
  assumes "8 \<le> windowBits" and "windowBits \<le> 15"
  shows "adjusted_windowBits mode windowBits =
           (if mode = GZIP \<or> mode = GUNZIP then windowBits + 16
            else if mode = UNZIP then windowBits + 32
            else if mode = DEFLATERAW \<or> mode = INFLATERAW then - windowBits
            else windowBits)"
  using assms by (cases mode) (simp_all add: adjusted_windowBits_def int32_fits)

lemma Init_valid:
  assumes "8 \<le> sint wb" "sint wb \<le> 15" "- 1 \<le> sint lv" "sint lv \<le> 9"
    "1 \<le> sint ml" "sint ml \<le> 9"
    "sint st \<in> {Z_FILTERED, Z_HUFFMAN_ONLY, Z_RLE, Z_FIXED, Z_DEFAULT_STRATEGY}"
  shows "Init mode Z wb lv ml st w = Init_ctx mode Z (sint lv) (sint wb) (sint ml) (sint st) w"
  using assms by (auto simp: Init_def Let_def)

text \<open>\<^verbatim>\<open>Write\<close> when every assertion holds, and when a bounds assertion fails.\<close>

lemma Write_accepts:
  assumes "m_init_done (ctx w)"
    and "arg_in a = Null \<or> (\<exists>b. arg_in a = Buffer b \<and>
           unat (arg_in_off a) + unat (arg_in_len a) \<le> unat (Buffer_Length (heap w) b))"
    and "arg_out a = Buffer ob"
    and "unat (arg_out_off a) + unat (arg_out_len a) \<le> unat (Buffer_Length (heap w) ob)"
  shows "Write mode a w =
           Done (next_object w)
             (w\<lparr>ctx := (ctx w)
                  \<lparr>m_strm := (m_strm (ctx w))
                     \<lparr>next_in := fst (staged_input a), avail_in := snd (staged_input a),
                      next_out := Data ob (unat (arg_out_off a)), avail_out := arg_out_len a\<rparr>,
                   m_flush := sint (arg_flush a),
                   m_chunk_size := sint (arg_out_len a)\<rparr>,
                next_object := Suc (next_object w),
                work_queue := work_queue w @ [next_object w]\<rparr>)"
  using assms
  by (auto simp: Write_def staged_input_def size_t_sum_le unat_widen narrow_widen Let_def)

lemma Write_rejects_input:
  assumes "arg_in a = Buffer b"
    and "unat (Buffer_Length (heap w) b) < unat (arg_in_off a) + unat (arg_in_len a)"
  shows "Write mode a w =
           Aborted (if m_init_done (ctx w) then In_within_Length else Write_before_init) w"
  using assms by (simp add: Write_def size_t_sum_le Let_def)

lemma Write_rejects_output:
  assumes "arg_out a = Buffer b"
    and "unat (Buffer_Length (heap w) b) < unat (arg_out_off a) + unat (arg_out_len a)"
  shows "\<exists>failed. Write mode a w = Aborted failed w \<and>
           (m_init_done (ctx w) \<and> arg_in a \<noteq> Other \<longrightarrow>
              failed = In_within_Length \<or> failed = Out_within_Length)"
  using assms
  by (cases "arg_in a") (auto simp: Write_def size_t_sum_le Let_def)

lemma Write_Done_frame:
  assumes "Write mode a w = Done r w1"
  shows "work_queue w1 = work_queue w @ [r] \<and> made_callbacks w1 = made_callbacks w
       \<and> heap w1 = heap w \<and> zcalls w1 = zcalls w"
  using assms
  by (auto simp: Write_def Let_def split: if_splits jsval.splits sum.splits prod.splits)

text \<open>\<^verbatim>\<open>Process\<close>, and the run of one queued request.\<close>

lemma Process_eq:
  "Process mode Z w =
     (case underlying_transform mode Z (heap w) (m_strm (ctx w)) (m_flush (ctx w)) of
        (err, h, s) \<Rightarrow>
          (if err \<noteq> Z_STREAM_ERROR then Done () else Aborted Not_Z_STREAM_ERROR)
            (w\<lparr>ctx := (ctx w)\<lparr>m_strm := s\<rparr>, heap := h,
               zcalls := zcalls w @ [(transform_call mode (m_flush (ctx w)), err)]\<rparr>))"
  by (cases mode)
    (simp_all add: Process_def call_defs underlying_transform_def transform_call_def Let_def
       split: prod.splits)

lemma uv_run_work_eq:
  "work_queue w = r # q \<Longrightarrow>
   uv_run_work mode Z w =
     (case underlying_transform mode Z (heap w) (m_strm (ctx w)) (m_flush (ctx w)) of
        (err, h, s) \<Rightarrow>
          if err = Z_STREAM_ERROR
          then Aborted Not_Z_STREAM_ERROR
                 (w\<lparr>work_queue := q, ctx := (ctx w)\<lparr>m_strm := s\<rparr>, heap := h,
                    zcalls := zcalls w @ [(transform_call mode (m_flush (ctx w)), err)]\<rparr>)
          else if \<not> has_callback w r
          then Aborted Invalid_callback
                 (w\<lparr>work_queue := q, ctx := (ctx w)\<lparr>m_strm := s\<rparr>, heap := h,
                    zcalls := zcalls w @ [(transform_call mode (m_flush (ctx w)), err)]\<rparr>)
          else Done ()
                 (w\<lparr>work_queue := q, ctx := (ctx w)\<lparr>m_strm := s\<rparr>, heap := h,
                    zcalls := zcalls w @ [(transform_call mode (m_flush (ctx w)), err)],
                    made_callbacks := made_callbacks w @
                      [(r, [sint (avail_in s), sint (avail_out s)])]\<rparr>))"
  by (simp add: uv_run_work_def Process_eq After_def Let_def split: prod.splits)

text \<open>The example states and the stand-in library, evaluated.\<close>

lemma pending_world_eq:
  "pending_world = ready_world
     \<lparr>ctx := (ctx ready_world)
        \<lparr>m_strm := (m_strm (ctx ready_world))
           \<lparr>next_in := Data 0 0, avail_in := 4, next_out := Data 1 0, avail_out := 16\<rparr>,
         m_flush := 0, m_chunk_size := 16\<rparr>,
      next_object := 1, work_queue := [0]\<rparr>"
  by (simp add: pending_world_def Write_def Let_def ready_world_def fresh_world_def
      four_into_sixteen_def Buffer_Length_def)

subsection \<open>Init\<close>

text \<open>
  Claim C2, as the source has it. When windowBits is in 8..15, level in -1..9, memLevel
  in 1..9 and strategy one of the five constants, \<^verbatim>\<open>Init\<close> passes its argument
  assertions, stores the four values (windowBits adjusted for the variant), makes
  exactly one call into zlib, \<^verbatim>\<open>deflateInit2\<close> or \<^verbatim>\<open>inflateInit2\<close> on the stream of the
  context with these values, and sets \<^verbatim>\<open>init_done_\<close>; it returns normally exactly when
  that call returned \<^verbatim>\<open>Z_OK\<close>, and otherwise fails the last assertion, \<^verbatim>\<open>err == Z_OK\<close>,
  with \<^verbatim>\<open>init_done_\<close> already set. When an argument is out of its range, \<^verbatim>\<open>Init\<close> fails
  the assertion on the first such argument, in the order windowBits, level, memLevel,
  strategy (the specification's InvalidConfig), before it touches anything: the
  state, and so the context, is as it was.
\<close>

theorem Init_checks_arguments:
  "(8 \<le> sint wb \<and> sint wb \<le> 15 \<and> - 1 \<le> sint lv \<and> sint lv \<le> 9 \<and>
    1 \<le> sint ml \<and> sint ml \<le> 9 \<and>
    sint st \<in> {Z_FILTERED, Z_HUFFMAN_ONLY, Z_RLE, Z_FIXED, Z_DEFAULT_STRATEGY}
    \<longrightarrow> Init mode Z wb lv ml st w =
          (let windowBits' =
                 (if mode = GZIP \<or> mode = GUNZIP then sint wb + 16
                  else if mode = UNZIP then sint wb + 32
                  else if mode = DEFLATERAW \<or> mode = INFLATERAW then - sint wb
                  else sint wb);
               strm0 = (m_strm (ctx w))\<lparr>zalloc := Z_NULL, zfree := Z_NULL, opaque := Z_NULL\<rparr>;
               (err, strm') =
                 (if mode = DEFLATE \<or> mode = GZIP \<or> mode = DEFLATERAW
                  then deflateInit2 Z strm0 (sint lv) Z_DEFLATED windowBits' (sint ml) (sint st)
                  else inflateInit2 Z strm0 windowBits');
               call =
                 (if mode = DEFLATE \<or> mode = GZIP \<or> mode = DEFLATERAW
                  then DeflateInit2 (sint lv) Z_DEFLATED windowBits' (sint ml) (sint st)
                  else InflateInit2 windowBits');
               w' = w\<lparr>ctx := (ctx w)\<lparr>m_level := sint lv, m_windowBits := windowBits',
                            m_memLevel := sint ml, m_strategy := sint st,
                            m_flush := Z_NO_FLUSH, m_strm := strm', m_init_done := True\<rparr>,
                      zcalls := zcalls w @ [(call, err)]\<rparr>
           in if err = Z_OK then Done () w' else Aborted Init_Z_OK w'))
   \<and> (\<not> (8 \<le> sint wb \<and> sint wb \<le> 15 \<and> - 1 \<le> sint lv \<and> sint lv \<le> 9 \<and>
          1 \<le> sint ml \<and> sint ml \<le> 9 \<and>
          sint st \<in> {Z_FILTERED, Z_HUFFMAN_ONLY, Z_RLE, Z_FIXED, Z_DEFAULT_STRATEGY})
    \<longrightarrow> Init mode Z wb lv ml st w =
          Aborted
            (if \<not> (8 \<le> sint wb \<and> sint wb \<le> 15) then Invalid_windowBits
             else if \<not> (- 1 \<le> sint lv \<and> sint lv \<le> 9) then Invalid_compression_level
             else if \<not> (1 \<le> sint ml \<and> sint ml \<le> 9) then Invalid_memlevel
             else Invalid_strategy)
            w)"
proof (intro conjI impI)
  assume v: "8 \<le> sint wb \<and> sint wb \<le> 15 \<and> - 1 \<le> sint lv \<and> sint lv \<le> 9 \<and>
    1 \<le> sint ml \<and> sint ml \<le> 9 \<and>
    sint st \<in> {Z_FILTERED, Z_HUFFMAN_ONLY, Z_RLE, Z_FIXED, Z_DEFAULT_STRATEGY}"
  then have eq: "Init mode Z wb lv ml st w =
      Init_ctx mode Z (sint lv) (sint wb) (sint ml) (sint st) w"
    by (intro Init_valid) simp_all
  have a: "adjusted_windowBits mode (sint wb) =
           (if mode = GZIP \<or> mode = GUNZIP then sint wb + 16
            else if mode = UNZIP then sint wb + 32
            else if mode = DEFLATERAW \<or> mode = INFLATERAW then - sint wb
            else sint wb)"
    using v by (intro adjusted_windowBits_8_15) simp_all
  show "Init mode Z wb lv ml st w =
          (let windowBits' =
                 (if mode = GZIP \<or> mode = GUNZIP then sint wb + 16
                  else if mode = UNZIP then sint wb + 32
                  else if mode = DEFLATERAW \<or> mode = INFLATERAW then - sint wb
                  else sint wb);
               strm0 = (m_strm (ctx w))\<lparr>zalloc := Z_NULL, zfree := Z_NULL, opaque := Z_NULL\<rparr>;
               (err, strm') =
                 (if mode = DEFLATE \<or> mode = GZIP \<or> mode = DEFLATERAW
                  then deflateInit2 Z strm0 (sint lv) Z_DEFLATED windowBits' (sint ml) (sint st)
                  else inflateInit2 Z strm0 windowBits');
               call =
                 (if mode = DEFLATE \<or> mode = GZIP \<or> mode = DEFLATERAW
                  then DeflateInit2 (sint lv) Z_DEFLATED windowBits' (sint ml) (sint st)
                  else InflateInit2 windowBits');
               w' = w\<lparr>ctx := (ctx w)\<lparr>m_level := sint lv, m_windowBits := windowBits',
                            m_memLevel := sint ml, m_strategy := sint st,
                            m_flush := Z_NO_FLUSH, m_strm := strm', m_init_done := True\<rparr>,
                      zcalls := zcalls w @ [(call, err)]\<rparr>
           in if err = Z_OK then Done () w' else Aborted Init_Z_OK w')"
    unfolding eq Init_ctx_eq a
    by (cases mode)
      (simp_all add: underlying_init_def init_call_def Let_def split: prod.splits)
next
  assume "\<not> (8 \<le> sint wb \<and> sint wb \<le> 15 \<and> - 1 \<le> sint lv \<and> sint lv \<le> 9 \<and>
          1 \<le> sint ml \<and> sint ml \<le> 9 \<and>
          sint st \<in> {Z_FILTERED, Z_HUFFMAN_ONLY, Z_RLE, Z_FIXED, Z_DEFAULT_STRATEGY})"
  then show "Init mode Z wb lv ml st w =
          Aborted
            (if \<not> (8 \<le> sint wb \<and> sint wb \<le> 15) then Invalid_windowBits
             else if \<not> (- 1 \<le> sint lv \<and> sint lv \<le> 9) then Invalid_compression_level
             else if \<not> (1 \<le> sint ml \<and> sint ml \<le> 9) then Invalid_memlevel
             else Invalid_strategy)
            w"
    by (auto simp: Init_def Let_def)
qed

text \<open>
  Claim C2 as the specification words it, that \<^verbatim>\<open>Init\<close> succeeds for every combination
  within the ranges, fails where zlib's initialiser does not return \<^verbatim>\<open>Z_OK\<close>: with
  windowBits 15, level 6, memLevel 8 and the default strategy, and \<^verbatim>\<open>deflateInit2\<close>
  returning \<^verbatim>\<open>Z_MEM_ERROR\<close>, \<^verbatim>\<open>Init\<close> fails its last assertion.
\<close>

theorem Init_valid_arguments_counterexample:
  "sint (15 :: uint32_t) = 15 \<and> sint (6 :: uint32_t) = 6 \<and> sint (8 :: uint32_t) = 8 \<and>
   sint (0 :: uint32_t) = Z_DEFAULT_STRATEGY \<and>
   failed_assertion (Init DEFLATE (zlib_stub Z_MEM_ERROR Z_OK 2) 15 6 8 0 fresh_world) =
     Some Init_Z_OK"
  by (simp add: Init_def Init_ctx_eq underlying_init_def init_call_def zlib_stub_def
      adjusted_windowBits_def int32_def strategy_defs
      Z_MEM_ERROR_def Z_OK_def Let_def)

text \<open>
  The theorem of C2 at two inputs: windowBits 15, level -1, memLevel 9, strategy
  \<^verbatim>\<open>Z_FIXED\<close> with a library that initialises, and the same with windowBits 16.
\<close>

theorem Init_checks_arguments_witness:
  "sint (15 :: uint32_t) = 15 \<and> sint (- 1 :: uint32_t) = - 1 \<and> sint (9 :: uint32_t) = 9 \<and>
   sint (4 :: uint32_t) = Z_FIXED \<and>
   failed_assertion (Init GUNZIP (zlib_stub Z_OK Z_OK 2) 15 (- 1) 9 4 fresh_world) = None \<and>
   m_init_done (ctx (state_of (Init GUNZIP (zlib_stub Z_OK Z_OK 2) 15 (- 1) 9 4 fresh_world))) \<and>
   sint (16 :: uint32_t) = 16 \<and>
   Init GUNZIP (zlib_stub Z_OK Z_OK 2) 16 (- 1) 9 4 fresh_world =
     Aborted Invalid_windowBits fresh_world \<and>
   \<not> m_init_done (ctx fresh_world)"
  using Init_checks_arguments [where wb = 15 and lv = "- 1" and ml = 9 and st = 4
      and w = fresh_world and mode = GUNZIP and Z = "zlib_stub Z_OK Z_OK 2"]
    Init_checks_arguments [where wb = 16 and lv = "- 1" and ml = 9 and st = 4
      and w = fresh_world and mode = GUNZIP and Z = "zlib_stub Z_OK Z_OK 2"]
  by (simp add: Init_def Init_ctx_eq underlying_init_def init_call_def zlib_stub_def
      adjusted_windowBits_def int32_def strategy_defs
      Z_OK_def fresh_world_def Let_def)



text \<open>
  Claim C10. After an \<^verbatim>\<open>Init\<close> whose arguments pass the four assertions, \<^verbatim>\<open>init_done_\<close>
  is true whatever the initialiser of zlib returned: \<^verbatim>\<open>Init\<close> either returns or fails
  its last assertion, on the return code, and in both cases the context it leaves is
  marked initialised, so that a \<^verbatim>\<open>Write\<close> on that context does not fail the assertion
  \<^verbatim>\<open>write before init\<close>.
\<close>

theorem Init_sets_init_done_first:
  assumes "8 \<le> sint wb \<and> sint wb \<le> 15" and "- 1 \<le> sint lv \<and> sint lv \<le> 9"
    and "1 \<le> sint ml \<and> sint ml \<le> 9"
    and "sint st \<in> {Z_FILTERED, Z_HUFFMAN_ONLY, Z_RLE, Z_FIXED, Z_DEFAULT_STRATEGY}"
  shows "m_init_done (ctx (state_of (Init mode Z wb lv ml st w)))
       \<and> failed_assertion (Init mode Z wb lv ml st w) \<in> {None, Some Init_Z_OK}
       \<and> failed_assertion (Write mode a (state_of (Init mode Z wb lv ml st w))) \<noteq>
           Some Write_before_init"
proof -
  have eq: "Init mode Z wb lv ml st w =
      Init_ctx mode Z (sint lv) (sint wb) (sint ml) (sint st) w"
    using assms by (intro Init_valid) simp_all
  have d: "m_init_done (ctx (state_of (Init mode Z wb lv ml st w)))"
    by (simp add: eq Init_ctx_eq split: prod.splits)
  have "failed_assertion (Init mode Z wb lv ml st w) \<in> {None, Some Init_Z_OK}"
    by (simp add: eq Init_ctx_eq split: prod.splits)
  moreover have "failed_assertion (Write mode a (state_of (Init mode Z wb lv ml st w))) \<noteq>
      Some Write_before_init"
    using d by (auto simp: Write_def Let_def split: jsval.splits sum.splits prod.splits)
  ultimately show ?thesis using d by simp
qed

text \<open>
  The theorem of C10 where \<^verbatim>\<open>inflateInit2\<close> returns \<^verbatim>\<open>Z_MEM_ERROR\<close>: \<^verbatim>\<open>Init\<close> fails its
  last assertion, the context is marked initialised, and a write on it is accepted.
\<close>

theorem Init_sets_init_done_first_witness:
  "(8 \<le> sint (15 :: uint32_t) \<and> sint (15 :: uint32_t) \<le> 15)
   \<and> failed_assertion (Init INFLATE (zlib_stub Z_MEM_ERROR Z_OK 2) 15 6 8 0 fresh_world) =
       Some Init_Z_OK
   \<and> \<not> m_init_done (ctx fresh_world)
   \<and> m_init_done
       (ctx (state_of (Init INFLATE (zlib_stub Z_MEM_ERROR Z_OK 2) 15 6 8 0 fresh_world)))
   \<and> failed_assertion
       (Write INFLATE four_into_sixteen
          (state_of (Init INFLATE (zlib_stub Z_MEM_ERROR Z_OK 2) 15 6 8 0 fresh_world))) = None"
  using Init_sets_init_done_first [where wb = 15 and lv = 6 and ml = 8 and st = 0
      and mode = INFLATE and Z = "zlib_stub Z_MEM_ERROR Z_OK 2" and w = fresh_world
      and a = four_into_sixteen]
  by (simp add: Init_def Init_ctx_eq underlying_init_def init_call_def zlib_stub_def
      adjusted_windowBits_def int32_def strategy_defs
      Z_MEM_ERROR_def Z_OK_def fresh_world_def Write_def Let_def four_into_sixteen_def
      Buffer_Length_def)

subsection \<open>Write\<close>

text \<open>
  Claim C3, as the source has it. A write whose input is a Buffer with offset plus
  length beyond \<^verbatim>\<open>Buffer::Length\<close>, or whose output is a Buffer with offset plus length
  beyond \<^verbatim>\<open>Buffer::Length\<close>, fails an assertion and leaves the state as it was: nothing
  is queued. On an initialised context, with null or a Buffer for the input, the
  assertion that fails is one of the two bounds assertions (the specification's
  OutOfBounds). The length of the output is not looked at on its own: a write whose
  output length is 0 and whose slices lie within their Buffers is accepted, and its
  request is queued with \<^verbatim>\<open>avail_out\<close> 0.
\<close>

theorem Write_rejects_out_of_bounds:
  "((\<exists>b. arg_in a = Buffer b \<and>
          unat (Buffer_Length (heap w) b) < unat (arg_in_off a) + unat (arg_in_len a)) \<or>
    (\<exists>b. arg_out a = Buffer b \<and>
          unat (Buffer_Length (heap w) b) < unat (arg_out_off a) + unat (arg_out_len a))
    \<longrightarrow> (\<exists>failed. Write mode a w = Aborted failed w \<and>
            (m_init_done (ctx w) \<and> arg_in a \<noteq> Other \<longrightarrow>
               failed = In_within_Length \<or> failed = Out_within_Length)))
   \<and> (m_init_done (ctx w) \<and>
      (arg_in a = Null \<or> (\<exists>b. arg_in a = Buffer b \<and>
          unat (arg_in_off a) + unat (arg_in_len a) \<le> unat (Buffer_Length (heap w) b))) \<and>
      arg_out a = Buffer ob \<and> arg_out_len a = 0 \<and>
      unat (arg_out_off a) \<le> unat (Buffer_Length (heap w) ob)
    \<longrightarrow> failed_assertion (Write mode a w) = None \<and>
        avail_out (m_strm (ctx (state_of (Write mode a w)))) = 0 \<and>
        work_queue (state_of (Write mode a w)) = work_queue w @ [next_object w])"
proof (intro conjI impI)
  assume "(\<exists>b. arg_in a = Buffer b \<and>
              unat (Buffer_Length (heap w) b) < unat (arg_in_off a) + unat (arg_in_len a)) \<or>
          (\<exists>b. arg_out a = Buffer b \<and>
              unat (Buffer_Length (heap w) b) < unat (arg_out_off a) + unat (arg_out_len a))"
  then show "\<exists>failed. Write mode a w = Aborted failed w \<and>
            (m_init_done (ctx w) \<and> arg_in a \<noteq> Other \<longrightarrow>
               failed = In_within_Length \<or> failed = Out_within_Length)"
  proof
    assume "\<exists>b. arg_in a = Buffer b \<and>
              unat (Buffer_Length (heap w) b) < unat (arg_in_off a) + unat (arg_in_len a)"
    then obtain b where "arg_in a = Buffer b"
      and "unat (Buffer_Length (heap w) b) < unat (arg_in_off a) + unat (arg_in_len a)"
      by blast
    then show ?thesis
      using Write_rejects_input [of a b w mode] by simp
  next
    assume "\<exists>b. arg_out a = Buffer b \<and>
              unat (Buffer_Length (heap w) b) < unat (arg_out_off a) + unat (arg_out_len a)"
    then obtain b where "arg_out a = Buffer b"
      and "unat (Buffer_Length (heap w) b) < unat (arg_out_off a) + unat (arg_out_len a)"
      by blast
    then show ?thesis
      by (rule Write_rejects_output)
  qed
next
  assume h: "m_init_done (ctx w) \<and>
      (arg_in a = Null \<or> (\<exists>b. arg_in a = Buffer b \<and>
          unat (arg_in_off a) + unat (arg_in_len a) \<le> unat (Buffer_Length (heap w) b))) \<and>
      arg_out a = Buffer ob \<and> arg_out_len a = 0 \<and>
      unat (arg_out_off a) \<le> unat (Buffer_Length (heap w) ob)"
  then have "unat (arg_out_off a) + unat (arg_out_len a) \<le> unat (Buffer_Length (heap w) ob)"
    by simp
  with h have eq: "Write mode a w =
           Done (next_object w)
             (w\<lparr>ctx := (ctx w)
                  \<lparr>m_strm := (m_strm (ctx w))
                     \<lparr>next_in := fst (staged_input a), avail_in := snd (staged_input a),
                      next_out := Data ob (unat (arg_out_off a)), avail_out := arg_out_len a\<rparr>,
                   m_flush := sint (arg_flush a),
                   m_chunk_size := sint (arg_out_len a)\<rparr>,
                next_object := Suc (next_object w),
                work_queue := work_queue w @ [next_object w]\<rparr>)"
    by (intro Write_accepts) simp_all
  from h show "failed_assertion (Write mode a w) = None" by (simp add: eq)
  from h show "avail_out (m_strm (ctx (state_of (Write mode a w)))) = 0" by (simp add: eq)
  from h show "work_queue (state_of (Write mode a w)) = work_queue w @ [next_object w]"
    by (simp add: eq)
qed

text \<open>
  Claim C3 as the specification words it, that a write with an output view of length 0
  is rejected, fails: the write of Buffer 0 into zero bytes of Buffer 1 is accepted, and
  its request is queued.
\<close>

theorem Write_zero_length_output_counterexample:
  "arg_out_len (four_into_sixteen\<lparr>arg_out_len := 0\<rparr>) = 0
   \<and> failed_assertion (Write GZIP (four_into_sixteen\<lparr>arg_out_len := 0\<rparr>) ready_world) = None
   \<and> work_queue ready_world = []
   \<and> work_queue (state_of (Write GZIP (four_into_sixteen\<lparr>arg_out_len := 0\<rparr>) ready_world)) = [0]"
  by (simp add: Write_def ready_world_def fresh_world_def four_into_sixteen_def Buffer_Length_def
      Let_def)

text \<open>
  The theorem of C3 at three inputs: five bytes asked of the four of Buffer 0, sixteen
  bytes from offset 1 of the sixteen of Buffer 1, and an output of length 0.
\<close>

theorem Write_rejects_out_of_bounds_witness:
  "unat (Buffer_Length (heap ready_world) 0) < unat (0 :: uint32_t) + unat (5 :: uint32_t)
   \<and> Write GZIP (four_into_sixteen\<lparr>arg_in_len := 5\<rparr>) ready_world =
       Aborted In_within_Length ready_world
   \<and> unat (Buffer_Length (heap ready_world) 1) < unat (1 :: uint32_t) + unat (16 :: uint32_t)
   \<and> Write GZIP (four_into_sixteen\<lparr>arg_out_off := 1\<rparr>) ready_world =
       Aborted Out_within_Length ready_world
   \<and> failed_assertion (Write GZIP (four_into_sixteen\<lparr>arg_out_len := 0\<rparr>) ready_world) = None"
  using Write_rejects_out_of_bounds [of "four_into_sixteen\<lparr>arg_in_len := 5\<rparr>" ready_world GZIP 1]
    Write_rejects_out_of_bounds [of "four_into_sixteen\<lparr>arg_out_off := 1\<rparr>" ready_world GZIP 1]
    Write_rejects_out_of_bounds [of "four_into_sixteen\<lparr>arg_out_len := 0\<rparr>" ready_world GZIP 1]
  by (simp add: Write_def Let_def ready_world_def fresh_world_def four_into_sixteen_def
      Buffer_Length_def)

text \<open>
  Claim C4. On an initialised context, a write whose input is null or a Buffer slice
  within its Buffer, and whose output is a Buffer slice within its Buffer, returns the
  new request object and leaves: \<^verbatim>\<open>avail_in\<close> the input length (0 for null), \<^verbatim>\<open>next_in\<close>
  the data of the input Buffer at the input offset (the local array for null),
  \<^verbatim>\<open>avail_out\<close> the output length, \<^verbatim>\<open>next_out\<close> the data of the output Buffer at the
  output offset, \<^verbatim>\<open>flush_\<close> the flush argument, and the queue longer by exactly that one
  request.
\<close>

theorem Write_stages_and_queues:
  assumes "m_init_done (ctx w)"
    and "arg_in a = Null \<or> (\<exists>b. arg_in a = Buffer b \<and>
           unat (arg_in_off a) + unat (arg_in_len a) \<le> unat (Buffer_Length (heap w) b))"
    and "arg_out a = Buffer ob"
    and "unat (arg_out_off a) + unat (arg_out_len a) \<le> unat (Buffer_Length (heap w) ob)"
  shows "Write mode a w = Done (next_object w) (state_of (Write mode a w))
       \<and> avail_in (m_strm (ctx (state_of (Write mode a w)))) =
           (case arg_in a of Buffer b \<Rightarrow> arg_in_len a | _ \<Rightarrow> 0)
       \<and> next_in (m_strm (ctx (state_of (Write mode a w)))) =
           (case arg_in a of Buffer b \<Rightarrow> Data b (unat (arg_in_off a)) | _ \<Rightarrow> Nada)
       \<and> avail_out (m_strm (ctx (state_of (Write mode a w)))) = arg_out_len a
       \<and> next_out (m_strm (ctx (state_of (Write mode a w)))) = Data ob (unat (arg_out_off a))
       \<and> m_flush (ctx (state_of (Write mode a w))) = sint (arg_flush a)
       \<and> work_queue (state_of (Write mode a w)) = work_queue w @ [next_object w]"
  by (simp add: Write_accepts [OF assms] staged_input_def split: jsval.splits)

text \<open>
  The theorem of C4 at two inputs: the four bytes of Buffer 0 into Buffer 1, and null
  with the flush \<^verbatim>\<open>Z_FINISH\<close>.
\<close>

theorem Write_stages_and_queues_witness:
  "m_init_done (ctx ready_world)
   \<and> Write GZIP four_into_sixteen ready_world =
       Done 0 (state_of (Write GZIP four_into_sixteen ready_world))
   \<and> avail_in (m_strm (ctx (state_of (Write GZIP four_into_sixteen ready_world)))) = 4
   \<and> next_in (m_strm (ctx (state_of (Write GZIP four_into_sixteen ready_world)))) = Data 0 0
   \<and> avail_out (m_strm (ctx (state_of (Write GZIP four_into_sixteen ready_world)))) = 16
   \<and> work_queue (state_of (Write GZIP four_into_sixteen ready_world)) = [0]
   \<and> avail_in (m_strm (ctx (state_of
         (Write GZIP (four_into_sixteen\<lparr>arg_in := Null, arg_flush := 4\<rparr>) ready_world)))) = 0
   \<and> m_flush (ctx (state_of
         (Write GZIP (four_into_sixteen\<lparr>arg_in := Null, arg_flush := 4\<rparr>) ready_world))) = Z_FINISH"
  using Write_stages_and_queues [of ready_world four_into_sixteen 1 GZIP]
    Write_stages_and_queues
      [of ready_world "four_into_sixteen\<lparr>arg_in := Null, arg_flush := 4\<rparr>" 1 GZIP]
  by (simp add: ready_world_def fresh_world_def four_into_sixteen_def Buffer_Length_def
      Z_FINISH_def)

subsection \<open>Process and After\<close>

text \<open>
  Claim C6. Running a queued request calls the transform exactly once, on the stream
  and with the flush that \<^verbatim>\<open>Write\<close> left: \<^verbatim>\<open>deflate\<close> for DEFLATE, GZIP and DEFLATERAW,
  \<^verbatim>\<open>inflate\<close> for the four other variants. The stream in the context afterwards is the
  one that call returned, and the queue afterwards is the rest of the queue: nothing is
  queued again, whatever input the call left.
\<close>

theorem work_item_one_transform:
  assumes "work_queue w = r # q"
  shows "map fst (zcalls (state_of (uv_run_work mode Z w))) =
           map fst (zcalls w) @
             [if mode = DEFLATE \<or> mode = GZIP \<or> mode = DEFLATERAW
              then Deflate (m_flush (ctx w)) else Inflate (m_flush (ctx w))]
         \<and> m_strm (ctx (state_of (uv_run_work mode Z w))) =
             snd (snd ((if mode = DEFLATE \<or> mode = GZIP \<or> mode = DEFLATERAW
                        then deflate Z else inflate Z)
                       (heap w) (m_strm (ctx w)) (m_flush (ctx w))))
         \<and> work_queue (state_of (uv_run_work mode Z w)) = q"
  using assms
  by (cases mode)
    (simp_all add: uv_run_work_eq underlying_transform_def transform_call_def split: prod.splits)

text \<open>
  The theorem of C6 on the request of the example write, with a transform that takes
  two of the four bytes: one call of \<^verbatim>\<open>inflate\<close>, two bytes left, nothing queued.
\<close>

theorem work_item_one_transform_witness:
  "work_queue pending_world = [0]
   \<and> map fst (zcalls (state_of (uv_run_work GUNZIP (zlib_stub Z_OK Z_OK 2) pending_world))) =
       [Inflate Z_NO_FLUSH]
   \<and> avail_in (m_strm (ctx (state_of
         (uv_run_work GUNZIP (zlib_stub Z_OK Z_OK 2) pending_world)))) = 2
   \<and> work_queue (state_of (uv_run_work GUNZIP (zlib_stub Z_OK Z_OK 2) pending_world)) = []"
  using work_item_one_transform [of pending_world 0 "[]" GUNZIP "zlib_stub Z_OK Z_OK 2"]
  by (simp add: uv_run_work_eq underlying_transform_def zlib_stub_def take_input_def
      transform_call_def Z_OK_def
      Z_STREAM_ERROR_def Z_NO_FLUSH_def pending_world_eq ready_world_def fresh_world_def)

text \<open>
  Claim C7. When a write was accepted with nothing else queued and its request has run
  to the end, exactly one callback was made, on the request object of that write, with
  two numbers \<open>d_in\<close> and \<open>d_out\<close> read from the stream the transform left: the original
  input length minus \<open>d_in\<close> is the specification's bytes consumed, and the original
  output length minus \<open>d_out\<close> is its bytes produced. The counters are handed over as
  \<^verbatim>\<open>int32_t\<close>, hence the bound \<open>2 ^ 31\<close> on them; a Buffer is shorter than that.
\<close>

theorem After_delivers_counters:
  assumes "Write mode a w = Done r w1"
    and "work_queue w = []"
    and "uv_run_work mode Z w1 = Done u w2"
    and "uint (avail_in (m_strm (ctx w2))) < 2 ^ 31"
    and "uint (avail_out (m_strm (ctx w2))) < 2 ^ 31"
  shows "(\<exists>d_in d_out.
            made_callbacks w2 = made_callbacks w @ [(r, [d_in, d_out])] \<and>
            original_input_length a - d_in = spec_bytes_consumed a (m_strm (ctx w2)) \<and>
            uint (arg_out_len a) - d_out = spec_bytes_produced a (m_strm (ctx w2)))
       \<and> m_strm (ctx w2) =
           snd (snd ((if mode = DEFLATE \<or> mode = GZIP \<or> mode = DEFLATERAW
                      then deflate Z else inflate Z)
                     (heap w1) (m_strm (ctx w1)) (m_flush (ctx w1))))"
proof -
  have q: "work_queue w1 = [r]" and m: "made_callbacks w1 = made_callbacks w"
    using Write_Done_frame [OF assms(1)] assms(2) by simp_all
  obtain err h s where t: "underlying_transform mode Z (heap w1) (m_strm (ctx w1))
      (m_flush (ctx w1)) = (err, h, s)"
    by (cases "underlying_transform mode Z (heap w1) (m_strm (ctx w1)) (m_flush (ctx w1))")
  have run: "made_callbacks w2 = made_callbacks w @ [(r, [sint (avail_in s), sint (avail_out s)])]
      \<and> m_strm (ctx w2) = s"
    using assms(3) by (auto simp: uv_run_work_eq [OF q] t m split: if_splits)
  then have s: "m_strm (ctx w2) = s" by simp
  have "sint (avail_in s) = uint (avail_in s)" "sint (avail_out s) = uint (avail_out s)"
    using assms(4,5) by (simp_all add: s sint_below)
  then have "made_callbacks w2 = made_callbacks w @ [(r, [uint (avail_in s), uint (avail_out s)])]"
    using run by simp
  moreover have "original_input_length a - uint (avail_in s) = spec_bytes_consumed a s"
    by (simp add: spec_bytes_consumed_def)
  moreover have "uint (arg_out_len a) - uint (avail_out s) = spec_bytes_produced a s"
    by (simp add: spec_bytes_produced_def)
  ultimately have "\<exists>d_in d_out.
            made_callbacks w2 = made_callbacks w @ [(r, [d_in, d_out])] \<and>
            original_input_length a - d_in = spec_bytes_consumed a (m_strm (ctx w2)) \<and>
            uint (arg_out_len a) - d_out = spec_bytes_produced a (m_strm (ctx w2))"
    unfolding s by blast
  moreover have "m_strm (ctx w2) =
           snd (snd ((if mode = DEFLATE \<or> mode = GZIP \<or> mode = DEFLATERAW
                      then deflate Z else inflate Z)
                     (heap w1) (m_strm (ctx w1)) (m_flush (ctx w1))))"
    using t by (cases mode) (simp_all add: s underlying_transform_def)
  ultimately show ?thesis by simp
qed

text \<open>
  The theorem of C7 on the example write, with a transform that takes two of the four
  bytes and writes nothing: the callback gets 2 and 16, two bytes were consumed and
  none produced.
\<close>

theorem After_delivers_counters_witness:
  "Write GUNZIP four_into_sixteen ready_world = Done 0 pending_world
   \<and> work_queue ready_world = []
   \<and> failed_assertion (uv_run_work GUNZIP (zlib_stub Z_OK Z_OK 2) pending_world) = None
   \<and> made_callbacks (state_of (uv_run_work GUNZIP (zlib_stub Z_OK Z_OK 2) pending_world)) =
       [(0, [2, 16])]
   \<and> spec_bytes_consumed four_into_sixteen
       (m_strm (ctx (state_of (uv_run_work GUNZIP (zlib_stub Z_OK Z_OK 2) pending_world)))) = 2
   \<and> spec_bytes_produced four_into_sixteen
       (m_strm (ctx (state_of (uv_run_work GUNZIP (zlib_stub Z_OK Z_OK 2) pending_world)))) = 0"
  using After_delivers_counters [of GUNZIP four_into_sixteen ready_world 0 pending_world
      "zlib_stub Z_OK Z_OK 2" "()"
      "state_of (uv_run_work GUNZIP (zlib_stub Z_OK Z_OK 2) pending_world)"]
  by (simp add: uv_run_work_eq underlying_transform_def zlib_stub_def take_input_def
      transform_call_def
      Z_OK_def Z_STREAM_ERROR_def pending_world_eq ready_world_def fresh_world_def
      Write_def Let_def four_into_sixteen_def Buffer_Length_def
      spec_bytes_consumed_def spec_bytes_produced_def original_input_length_def)

text \<open>
  Claim C8, as the source has it. The code the transform returns is not handed to the
  caller. When it is any code but \<^verbatim>\<open>Z_STREAM_ERROR\<close>, \<^verbatim>\<open>Z_DATA_ERROR\<close> included, the request
  completes as a successful one does: one callback with the two counters of the stream
  the transform left, and a context that differs from the one before only in that
  stream. When it is \<^verbatim>\<open>Z_STREAM_ERROR\<close>, the work function fails its assertion and no
  callback is made.
\<close>

theorem transform_code_not_delivered:
  assumes "work_queue w = r # q" and "has_callback w r"
    and "(if mode = DEFLATE \<or> mode = GZIP \<or> mode = DEFLATERAW then deflate Z else inflate Z)
           (heap w) (m_strm (ctx w)) (m_flush (ctx w)) = (err, h, s)"
  shows "(err \<noteq> Z_STREAM_ERROR \<longrightarrow>
            failed_assertion (uv_run_work mode Z w) = None \<and>
            made_callbacks (state_of (uv_run_work mode Z w)) =
              made_callbacks w @ [(r, [sint (avail_in s), sint (avail_out s)])] \<and>
            ctx (state_of (uv_run_work mode Z w)) = (ctx w)\<lparr>m_strm := s\<rparr>)
       \<and> (err = Z_STREAM_ERROR \<longrightarrow>
            failed_assertion (uv_run_work mode Z w) = Some Not_Z_STREAM_ERROR \<and>
            made_callbacks (state_of (uv_run_work mode Z w)) = made_callbacks w)"
proof -
  have "underlying_transform mode Z (heap w) (m_strm (ctx w)) (m_flush (ctx w)) = (err, h, s)"
    using assms(3) by (cases mode) (simp_all add: underlying_transform_def)
  then show ?thesis
    using assms(2) by (simp add: uv_run_work_eq [OF assms(1)])
qed

text \<open>
  Claim C8 as the specification words it, that a data error of a decompressor is
  reported to the caller, fails: on the example request of a GUNZIP context, an
  \<^verbatim>\<open>inflate\<close> that returns \<^verbatim>\<open>Z_DATA_ERROR\<close> and one that returns \<^verbatim>\<open>Z_OK\<close> after the same
  two bytes lead to the same single callback and the same context.
\<close>

theorem data_error_not_reported_counterexample:
  "zcalls (state_of (uv_run_work GUNZIP (zlib_stub Z_OK Z_DATA_ERROR 2) pending_world)) =
     [(Inflate Z_NO_FLUSH, Z_DATA_ERROR)]
   \<and> failed_assertion (uv_run_work GUNZIP (zlib_stub Z_OK Z_DATA_ERROR 2) pending_world) = None
   \<and> made_callbacks (state_of (uv_run_work GUNZIP (zlib_stub Z_OK Z_DATA_ERROR 2) pending_world)) =
       [(0, [2, 16])]
   \<and> zcalls (state_of (uv_run_work GUNZIP (zlib_stub Z_OK Z_OK 2) pending_world)) =
       [(Inflate Z_NO_FLUSH, Z_OK)]
   \<and> made_callbacks (state_of (uv_run_work GUNZIP (zlib_stub Z_OK Z_OK 2) pending_world)) =
       [(0, [2, 16])]
   \<and> ctx (state_of (uv_run_work GUNZIP (zlib_stub Z_OK Z_DATA_ERROR 2) pending_world)) =
     ctx (state_of (uv_run_work GUNZIP (zlib_stub Z_OK Z_OK 2) pending_world))
   \<and> Z_DATA_ERROR \<noteq> Z_OK"
  by (simp add: uv_run_work_eq underlying_transform_def zlib_stub_def take_input_def
      transform_call_def
      Z_OK_def Z_DATA_ERROR_def Z_STREAM_ERROR_def Z_NO_FLUSH_def
      pending_world_eq ready_world_def fresh_world_def)

text \<open>
  The theorem of C8 on the example request, for an \<^verbatim>\<open>inflate\<close> that returns
  \<^verbatim>\<open>Z_DATA_ERROR\<close> and for one that returns \<^verbatim>\<open>Z_STREAM_ERROR\<close>.
\<close>

theorem transform_code_not_delivered_witness:
  "work_queue pending_world = [0] \<and> has_callback pending_world 0
   \<and> Z_DATA_ERROR \<noteq> Z_STREAM_ERROR
   \<and> made_callbacks (state_of (uv_run_work GUNZIP (zlib_stub Z_OK Z_DATA_ERROR 2) pending_world)) =
       [(0, [2, 16])]
   \<and> failed_assertion (uv_run_work GUNZIP (zlib_stub Z_OK Z_STREAM_ERROR 2) pending_world) =
       Some Not_Z_STREAM_ERROR
   \<and> made_callbacks (state_of (uv_run_work GUNZIP (zlib_stub Z_OK Z_STREAM_ERROR 2) pending_world)) =
       []"
  using transform_code_not_delivered [of pending_world 0 "[]" GUNZIP
      "zlib_stub Z_OK Z_DATA_ERROR 2" Z_DATA_ERROR "heap pending_world"
      "(m_strm (ctx pending_world))\<lparr>next_in := Data 0 2, avail_in := 2\<rparr>"]
    transform_code_not_delivered [of pending_world 0 "[]" GUNZIP
      "zlib_stub Z_OK Z_STREAM_ERROR 2" Z_STREAM_ERROR "heap pending_world"
      "(m_strm (ctx pending_world))\<lparr>next_in := Data 0 2, avail_in := 2\<rparr>"]
  by (simp add: zlib_stub_def take_input_def Z_DATA_ERROR_def Z_STREAM_ERROR_def
      pending_world_eq ready_world_def fresh_world_def)

subsection \<open>The destructor\<close>

text \<open>
  Claim C9, where the source departs from it. The destructor of an UNZIP context calls
  neither \<^verbatim>\<open>deflateEnd\<close> nor \<^verbatim>\<open>inflateEnd\<close>: after \<^verbatim>\<open>Init\<close> with windowBits 15, level 6,
  memLevel 8 and the default strategy, and the destructor, the calls made into zlib
  are \<^verbatim>\<open>inflateInit2\<close> with 47 and nothing else. The same on an INFLATE context ends
  with \<^verbatim>\<open>inflateEnd\<close>.
\<close>

theorem destructor_misses_UNZIP:
  "map fst (zcalls (ZCtx_destructor UNZIP Z (state_of (Init UNZIP Z 15 6 8 0 w)))) =
     map fst (zcalls w) @ [InflateInit2 47]
   \<and> map fst (zcalls (ZCtx_destructor INFLATE Z (state_of (Init INFLATE Z 15 6 8 0 w)))) =
     map fst (zcalls w) @ [InflateInit2 15, InflateEnd]"
  by (simp add: ZCtx_destructor_def Init_def Init_ctx_eq init_call_def call_defs Let_def
      adjusted_windowBits_def int32_def strategy_defs split: prod.splits)

end
